theory Spec2Isabelle
  imports Complex_Main
begin

section \<open>Data model\<close>

text \<open>
  The tree generator module (\<^verbatim>\<open>tree_generator.js\<close>) turns a configuration object into
  two arrays of transforms. JavaScript numbers are modelled exactly: the integer-valued
  fields \<^verbatim>\<open>maxDepth\<close> and \<^verbatim>\<open>numBranches\<close> are natural numbers, every other quantity is
  a real number (the rounding of IEEE doubles is not modelled). Every field of the
  configuration is optional; \<open>None\<close> stands for an absent (\<^verbatim>\<open>undefined\<close> or \<^verbatim>\<open>null\<close>) field.
\<close>

record config =
  maxDepth :: "nat option"
  initialLength :: "real option"
  initialRadius :: "real option"
  lengthFactor :: "real option"
  branchAngle :: "real option"
  radiusFactor :: "real option"
  minRadius :: "real option"
  numBranches :: "nat option"
  angleVariance :: "real option"
  lengthVariance :: "real option"
  leafSize :: "real option"

text \<open>\<^verbatim>\<open>a ?? d\<close>: the default replaces only an absent value.\<close>

definition nullish :: "'a option \<Rightarrow> 'a \<Rightarrow> 'a" where
  "nullish a d = (case a of None \<Rightarrow> d | Some v \<Rightarrow> v)"

text \<open>\<^verbatim>\<open>a || d\<close> on a number: the default replaces an absent value and also the falsy \<open>0\<close>.\<close>

definition falsy_or :: "nat option \<Rightarrow> nat \<Rightarrow> nat" where
  "falsy_or a d = (case a of None \<Rightarrow> d | Some v \<Rightarrow> if v = 0 then d else v)"

subsection \<open>Values of the three.js library\<close>

text \<open>
  three.js is an external dependency of the module. Its values are represented by the
  constructor calls that build them, in the order the source makes them, and are not
  interpreted: two transforms are equal here when they were built by the same calls on
  the same numbers. \<^verbatim>\<open>new THREE.Matrix4()\<close> is \<open>Identity\<close>, and \<^verbatim>\<open>a.multiply(b)\<close> is
  \<open>MultiplyMatrices a b\<close>.
\<close>

datatype vector3 = Vector3 real real real

datatype euler = Euler real real real

datatype quaternion =
    SetFromEuler euler
  | SetFromAxisAngle vector3 real
  | MultiplyQuaternions quaternion quaternion

datatype matrix4 =
    Identity
  | MakeScale real real real
  | MakeTranslation real real real
  | MakeRotationFromQuaternion quaternion
  | MultiplyMatrices matrix4 matrix4

text \<open>\<^verbatim>\<open>THREE.MathUtils.degToRad\<close>.\<close>

definition degToRad :: "real \<Rightarrow> real" where
  "degToRad degrees = degrees * (pi / 180)"

subsection \<open>Generation state\<close>

text \<open>
  The two output arrays are mutated in place by the recursion, and \<^verbatim>\<open>Math.random()\<close> is a
  process-wide source. Both are threaded explicitly: the random source is a function
  \<open>rand\<close> giving the \<open>k\<close>-th draw, and \<open>draws\<close> counts the draws made so far.

  \<open>trace\<close> is a ghost field: it is appended to at every emission and at every recursive
  call, and never read by the program. It records the level (and, for a branch, the
  length and radius) of the call that made the emission.
\<close>

datatype event =
    EmitBranch nat real real matrix4
  | EmitLeaf nat matrix4
  | Call nat nat

record gen_state =
  branchMatricesArray :: "matrix4 list"
  leafMatricesArray :: "matrix4 list"
  draws :: nat
  trace :: "event list"

definition random :: "(nat \<Rightarrow> real) \<Rightarrow> gen_state \<Rightarrow> real \<times> gen_state" where
  "random rand st = (rand (draws st), st\<lparr>draws := draws st + 1\<rparr>)"

definition pushBranch :: "nat \<Rightarrow> real \<Rightarrow> real \<Rightarrow> matrix4 \<Rightarrow> gen_state \<Rightarrow> gen_state" where
  "pushBranch level len radius m st =
     st\<lparr>branchMatricesArray := branchMatricesArray st @ [m],
        trace := trace st @ [EmitBranch level len radius m]\<rparr>"

definition pushLeaf :: "nat \<Rightarrow> matrix4 \<Rightarrow> gen_state \<Rightarrow> gen_state" where
  "pushLeaf level m st =
     st\<lparr>leafMatricesArray := leafMatricesArray st @ [m],
        trace := trace st @ [EmitLeaf level m]\<rparr>"

definition noteCall :: "nat \<Rightarrow> nat \<Rightarrow> gen_state \<Rightarrow> gen_state" where
  "noteCall level nextLevel st = st\<lparr>trace := trace st @ [Call level nextLevel]\<rparr>"

section \<open>Instance budget estimator\<close>

text \<open>
  \<^verbatim>\<open>for (let i = 0; i <= depth; i++) count += Math.pow(branches, i);\<close>
\<close>

function estimateLoop :: "nat \<Rightarrow> nat \<Rightarrow> nat \<Rightarrow> nat \<Rightarrow> nat" where
  "estimateLoop depth branches i count =
     (if i \<le> depth then estimateLoop depth branches (i + 1) (count + branches ^ i)
      else count)"
  by pat_completeness auto
termination
  by (relation "measure (\<lambda>(depth, branches, i, count). depth + 1 - i)") auto

declare estimateLoop.simps [simp del]

text \<open>
  \<^verbatim>\<open>estimateMaxInstances(config, estimateFactor = 1.5)\<close>. The estimator reads its two
  fields with \<^verbatim>\<open>||\<close>. The second argument is optional: \<open>None\<close> is a call that omits it,
  as the only caller does, and the default \<open>1.5\<close> takes its place.
\<close>

definition estimateMaxInstances :: "config \<Rightarrow> real option \<Rightarrow> int" where
  "estimateMaxInstances config estimateFactor =
     (let depth = falsy_or (maxDepth config) 5;
          branches = falsy_or (numBranches config) 2;
          count = estimateLoop depth branches 0 0
      in \<lceil>real count * nullish estimateFactor 1.5 * 1.5\<rceil>)"

section \<open>Branch and leaf recursion\<close>

text \<open>
  \<^verbatim>\<open>new THREE.Euler(Math.random() * Math.PI, Math.random() * Math.PI * 2, Math.random() * Math.PI)\<close>:
  three draws, left to right.
\<close>

definition randomEuler :: "(nat \<Rightarrow> real) \<Rightarrow> gen_state \<Rightarrow> euler \<times> gen_state" where
  "randomEuler rand st =
     (let (r1, st1) = random rand st;
          (r2, st2) = random rand st1;
          (r3, st3) = random rand st2
      in (Euler (r1 * pi) (r2 * pi * 2) (r3 * pi), st3))"

definition isTerminal :: "config \<Rightarrow> nat \<Rightarrow> real \<Rightarrow> real \<Rightarrow> bool" where
  "isTerminal config level len radius =
     (level \<ge> nullish (maxDepth config) 5 \<or> len \<le> 0.01
      \<or> radius < nullish (minRadius config) 0.1)"

definition reachedLimit :: "int \<Rightarrow> gen_state \<Rightarrow> bool" where
  "reachedLimit estimatedMaxInstances st =
     (int (length (branchMatricesArray st)) \<ge> estimatedMaxInstances
      \<or> int (length (leafMatricesArray st)) \<ge> estimatedMaxInstances - 1)"

text \<open>The body of \<^verbatim>\<open>if (canAddLeaves) { ... }\<close>: one leaf at the base, one at the tip.\<close>

definition addLeaves ::
  "(nat \<Rightarrow> real) \<Rightarrow> config \<Rightarrow> nat \<Rightarrow> matrix4 \<Rightarrow> real \<Rightarrow> gen_state \<Rightarrow> gen_state" where
  "addLeaves rand config level parentMatrix len st =
     (let scale = nullish (leafSize config) 0.5;
          scaleMatrix = MakeScale scale scale scale;
          (eulerBase, st1) = randomEuler rand st;
          randomQuatBase = SetFromEuler eulerBase;
          rotationMatrixBase = MakeRotationFromQuaternion randomQuatBase;
          leafMatrixBase =
            MultiplyMatrices
              (MultiplyMatrices (MultiplyMatrices Identity parentMatrix) rotationMatrixBase)
              scaleMatrix;
          st2 = pushLeaf level leafMatrixBase st1;
          endPointTranslation = MakeTranslation 0 len 0;
          tipMatrix = MultiplyMatrices parentMatrix endPointTranslation;
          (eulerTip, st3) = randomEuler rand st2;
          randomQuatTip = SetFromEuler eulerTip;
          rotationMatrixTip = MakeRotationFromQuaternion randomQuatTip;
          leafMatrixTip =
            MultiplyMatrices
              (MultiplyMatrices (MultiplyMatrices Identity tipMatrix) rotationMatrixTip)
              scaleMatrix
      in pushLeaf level leafMatrixTip st3)"

text \<open>The base case: \<^verbatim>\<open>if (isTerminal || reachedLimit) { ...; return; }\<close>.\<close>

definition baseCase ::
  "(nat \<Rightarrow> real) \<Rightarrow> config \<Rightarrow> int \<Rightarrow> nat \<Rightarrow> matrix4 \<Rightarrow> real \<Rightarrow> real \<Rightarrow> gen_state \<Rightarrow> gen_state" where
  "baseCase rand config estimatedMaxInstances level parentMatrix len radius st =
     (if isTerminal config level len radius \<and> level > 0 then
        (let canAddLeaves = int (length (leafMatricesArray st)) < estimatedMaxInstances - 1
         in if canAddLeaves then addLeaves rand config level parentMatrix len st else st)
      else st)"

text \<open>The branch matrix of a segment that is not a base case.\<close>

definition emitBranch :: "config \<Rightarrow> nat \<Rightarrow> matrix4 \<Rightarrow> real \<Rightarrow> real \<Rightarrow> gen_state \<Rightarrow> gen_state" where
  "emitBranch config level parentMatrix len radius st =
     (let actualRadius = max radius (nullish (minRadius config) 0.1);
          scaleMatrixBranch = MakeScale (actualRadius * 2) len (actualRadius * 2);
          translationMatrixBranch = MakeTranslation 0 (len / 2) 0;
          localMatrix = MultiplyMatrices translationMatrixBranch scaleMatrixBranch;
          worldMatrix = MultiplyMatrices parentMatrix localMatrix
      in pushBranch level len radius worldMatrix st)"

text \<open>
  One iteration of the child loop up to the recursive call: the three draws and the
  arguments of the call.
\<close>

definition childArguments ::
  "(nat \<Rightarrow> real) \<Rightarrow> config \<Rightarrow> real \<Rightarrow> real \<Rightarrow> matrix4 \<Rightarrow> real \<Rightarrow> nat \<Rightarrow> gen_state
     \<Rightarrow> (matrix4 \<times> real \<times> real) \<times> gen_state" where
  "childArguments rand config baseNextLength baseNextRadius childBaseMatrix angleStep i st =
     (let branchAngle' = nullish (branchAngle config) 30;
          angleVariance' = nullish (angleVariance config) 10;
          lengthVariance' = nullish (lengthVariance config) 10;
          (r1, st1) = random rand st;
          lenVarFactor = 1 + (r1 - 0.5) * 2 * (lengthVariance' / 100);
          (r2, st2) = random rand st1;
          angleVar = (r2 - 0.5) * 2 * angleVariance';
          (r3, st3) = random rand st2;
          spreadVar = (r3 - 0.5) * (angleStep * 0.4);
          nextLength = baseNextLength * lenVarFactor;
          nextRadius = baseNextRadius;
          branchAngleDeg = branchAngle' + angleVar;
          baseSpreadAngleDeg = angleStep * real i;
          spreadAngleDeg = baseSpreadAngleDeg + spreadVar;
          branchAngleRad = degToRad branchAngleDeg;
          spreadAngleRad = degToRad spreadAngleDeg;
          qSpread = SetFromAxisAngle (Vector3 0 1 0) spreadAngleRad;
          qBranch = SetFromAxisAngle (Vector3 1 0 0) branchAngleRad;
          orientationQuat = MultiplyQuaternions qSpread qBranch;
          rotationMatrix = MakeRotationFromQuaternion orientationQuat;
          nextParentMatrix = MultiplyMatrices childBaseMatrix rotationMatrix
      in ((nextParentMatrix, nextLength, nextRadius), st3))"

text \<open>
  \<^verbatim>\<open>collectBranchDataRecursive\<close> and its child loop
  \<^verbatim>\<open>for (let i = 0; i < numBranches; i++) { if (...) break; ...; collectBranchDataRecursive(...); }\<close>.
  The loop is the second function; it receives the locals of the enclosing call that its
  body reads, and \<open>level\<close>, which only the ghost trace records. \<open>len\<close> is the parameter
  \<^verbatim>\<open>length\<close>.
\<close>

function collectBranchDataRecursive ::
  "(nat \<Rightarrow> real) \<Rightarrow> config \<Rightarrow> int \<Rightarrow> nat \<Rightarrow> matrix4 \<Rightarrow> real \<Rightarrow> real \<Rightarrow> gen_state \<Rightarrow> gen_state"
and childLoop ::
  "(nat \<Rightarrow> real) \<Rightarrow> config \<Rightarrow> int \<Rightarrow> nat \<Rightarrow> nat \<Rightarrow> real \<Rightarrow> real \<Rightarrow> matrix4 \<Rightarrow> real \<Rightarrow> nat
     \<Rightarrow> gen_state \<Rightarrow> gen_state"
where
  "collectBranchDataRecursive rand config estimatedMaxInstances level parentMatrix len radius st =
     (if isTerminal config level len radius \<or> reachedLimit estimatedMaxInstances st then
        baseCase rand config estimatedMaxInstances level parentMatrix len radius st
      else
        (let st1 = emitBranch config level parentMatrix len radius st;
             actualRadius = max radius (nullish (minRadius config) 0.1);
             nextLevel = level + 1;
             baseNextLength = len * nullish (lengthFactor config) 0.7;
             baseNextRadius = actualRadius * nullish (radiusFactor config) 0.6;
             endPointTranslationChild = MakeTranslation 0 len 0;
             childBaseMatrix = MultiplyMatrices parentMatrix endPointTranslationChild;
             numBranches' = nullish (numBranches config) 2;
             angleStep = (if numBranches' > 1 then 360 / real numBranches' else 0)
         in childLoop rand config estimatedMaxInstances level nextLevel baseNextLength
              baseNextRadius childBaseMatrix angleStep 0 st1))"
| "childLoop rand config estimatedMaxInstances level nextLevel baseNextLength baseNextRadius
     childBaseMatrix angleStep i st =
     (if i < nullish (numBranches config) 2 then
        (if reachedLimit estimatedMaxInstances st then st
         else
           (case childArguments rand config baseNextLength baseNextRadius childBaseMatrix
                   angleStep i st of
              ((nextParentMatrix, nextLength, nextRadius), st1) \<Rightarrow>
                childLoop rand config estimatedMaxInstances level nextLevel baseNextLength
                  baseNextRadius childBaseMatrix angleStep (i + 1)
                  (collectBranchDataRecursive rand config estimatedMaxInstances nextLevel
                     nextParentMatrix nextLength nextRadius (noteCall level nextLevel st1))))
      else st)"
  by pat_completeness auto

text \<open>
  Termination. A call recurses only below \<^verbatim>\<open>maxDepth\<close>, and the loop counter runs up to
  \<^verbatim>\<open>numBranches\<close>; the state, which the nested calls transform, plays no part.
\<close>

lemma collectBranchDataRecursive_childLoop_total:
  "All collectBranchDataRecursive_childLoop_dom"
  apply (relation "inv_image (less_than <*lex*> less_than)
      (\<lambda>x. case x of
          Inl (rand, config, est, level, parentMatrix, len, radius, st) \<Rightarrow>
            ((nullish (maxDepth config) 5 + 1 - level) * 2, 0)
        | Inr (rand, config, est, level, nextLevel, baseNextLength, baseNextRadius,
               childBaseMatrix, angleStep, i, st) \<Rightarrow>
            ((nullish (maxDepth config) 5 + 1 - nextLevel) * 2 + 1,
             nullish (numBranches config) 2 - i))")
     apply (auto simp: isTerminal_def)
  done

termination collectBranchDataRecursive
  using collectBranchDataRecursive_childLoop_total by blast

declare collectBranchDataRecursive.simps [simp del] childLoop.simps [simp del]

section \<open>Generation facade\<close>

text \<open>
  \<^verbatim>\<open>generateTreeMatrices(config)\<close>. \<open>None\<close> is a config for which \<^verbatim>\<open>!config\<close> holds. The
  console is modelled as the list of lines written during the call.
\<close>

datatype console_line =
    ConsoleError string
  | ConsoleLog nat nat

record tree_matrices =
  branchMatrices :: "matrix4 list"
  leafMatrices :: "matrix4 list"

text \<open>The part of the facade after the guard, up to the return of the recursion.\<close>

definition runGeneration :: "(nat \<Rightarrow> real) \<Rightarrow> config \<Rightarrow> gen_state" where
  "runGeneration rand config =
     (let st0 = \<lparr>branchMatricesArray = [], leafMatricesArray = [], draws = 0, trace = []\<rparr>;
          estimatedMax = estimateMaxInstances config None;
          initialLength' = nullish (initialLength config) 10;
          initialRadius' = nullish (initialRadius config) (initialLength' / 15);
          initialMatrix = Identity
      in collectBranchDataRecursive rand config estimatedMax 0 initialMatrix initialLength'
           initialRadius' st0)"

text \<open>
  \<open>ConsoleLog n m\<close> is the line
  \<^verbatim>\<open>Generated ${n} branch matrices and ${m} leaf matrices.\<close>
\<close>

definition generateTreeMatrices ::
  "(nat \<Rightarrow> real) \<Rightarrow> config option \<Rightarrow> tree_matrices \<times> console_line list" where
  "generateTreeMatrices rand config =
     (case config of
        None \<Rightarrow>
          (\<lparr>branchMatrices = [], leafMatrices = []\<rparr>,
           [ConsoleError ''generateTreeMatrices requires a configuration object.''])
      | Some c \<Rightarrow>
          (let st = runGeneration rand c
           in (\<lparr>branchMatrices = branchMatricesArray st, leafMatrices = leafMatricesArray st\<rparr>,
               [ConsoleLog (length (branchMatricesArray st)) (length (leafMatricesArray st))])))"

section \<open>The call stack\<close>






section \<open>Observations on a run\<close>

text \<open>
  The matrices that a trace says were pushed, in order. On a prefix of the trace they
  are the contents of the output arrays at that moment of the run.
\<close>

fun emittedBranches :: "event list \<Rightarrow> matrix4 list" where
  "emittedBranches [] = []"
| "emittedBranches (EmitBranch level len radius m # es) = m # emittedBranches es"
| "emittedBranches (e # es) = emittedBranches es"

fun emittedLeaves :: "event list \<Rightarrow> matrix4 list" where
  "emittedLeaves [] = []"
| "emittedLeaves (EmitLeaf level m # es) = m # emittedLeaves es"
| "emittedLeaves (e # es) = emittedLeaves es"

definition traceAgrees :: "gen_state \<Rightarrow> bool" where
  "traceAgrees st =
     (emittedBranches (trace st) = branchMatricesArray st
      \<and> emittedLeaves (trace st) = leafMatricesArray st)"

definition withinBudget :: "int \<Rightarrow> gen_state \<Rightarrow> bool" where
  "withinBudget est st =
     (int (length (branchMatricesArray st)) \<le> est
      \<and> int (length (leafMatricesArray st)) \<le> est)"

text \<open>
  Properties of the ghost trace: a leaf is pushed only by a call above the root; a branch
  is pushed only by a call that is not terminal; a recursive call goes from a level below
  \<^verbatim>\<open>maxDepth\<close> to the next level.
\<close>

definition leavesAboveRoot :: "gen_state \<Rightarrow> bool" where
  "leavesAboveRoot st = (\<forall>l m. EmitLeaf l m \<in> set (trace st) \<longrightarrow> 1 \<le> l)"


definition callsDescend :: "config \<Rightarrow> gen_state \<Rightarrow> bool" where
  "callsDescend config st =
     (\<forall>a b. Call a b \<in> set (trace st) \<longrightarrow> b = a + 1 \<and> a < nullish (maxDepth config) 5)"

text \<open>Two random sources give the same draws from position \<open>lo\<close> up to, not including, \<open>hi\<close>.\<close>

definition agreeOn :: "(nat \<Rightarrow> real) \<Rightarrow> (nat \<Rightarrow> real) \<Rightarrow> nat \<Rightarrow> nat \<Rightarrow> bool" where
  "agreeOn rand1 rand2 lo hi = (\<forall>k. lo \<le> k \<and> k < hi \<longrightarrow> rand1 k = rand2 k)"

text \<open>The configuration of the depth-1 example; \<^verbatim>\<open>leafSize\<close> is absent from it.\<close>

definition depth1Config :: config where
  "depth1Config =
     \<lparr>maxDepth = Some 1, initialLength = Some 10, initialRadius = Some 0.7,
      lengthFactor = Some 0.7, branchAngle = Some 30, radiusFactor = Some 0.6,
      minRadius = Some 0.1, numBranches = Some 2, angleVariance = Some 0,
      lengthVariance = Some 0, leafSize = None\<rparr>"

text \<open>\<^verbatim>\<open>{maxDepth: 0, numBranches: 2}\<close>, every other field absent.\<close>

definition zeroDepthConfig :: config where
  "zeroDepthConfig =
     \<lparr>maxDepth = Some 0, initialLength = None, initialRadius = None,
      lengthFactor = None, branchAngle = None, radiusFactor = None,
      minRadius = None, numBranches = Some 2, angleVariance = None,
      lengthVariance = None, leafSize = None\<rparr>"

text \<open>
  Two random sources: one pinned to \<open>0.5\<close> for every draw, and one that is \<open>0.5\<close> for the
  first eighteen draws and \<open>0\<close> afterwards.
\<close>

definition pinnedRandom :: "nat \<Rightarrow> real" where
  "pinnedRandom k = 0.5"

definition pinnedThenZero :: "nat \<Rightarrow> real" where
  "pinnedThenZero k = (if k < 18 then 0.5 else 0)"

section \<open>What one step does to the state\<close>

lemma addLeaves_arrays:
  "branchMatricesArray (addLeaves rand config level parentMatrix len st) = branchMatricesArray st"
  "\<exists>m1 m2.
     leafMatricesArray (addLeaves rand config level parentMatrix len st)
       = leafMatricesArray st @ [m1, m2]
     \<and> trace (addLeaves rand config level parentMatrix len st)
       = trace st @ [EmitLeaf level m1, EmitLeaf level m2]"
  "draws (addLeaves rand config level parentMatrix len st) = draws st + 6"
  by (simp_all add: addLeaves_def randomEuler_def random_def pushLeaf_def Let_def)

lemma emitBranch_arrays:
  "leafMatricesArray (emitBranch config level parentMatrix len radius st) = leafMatricesArray st"
  "\<exists>m.
     branchMatricesArray (emitBranch config level parentMatrix len radius st)
       = branchMatricesArray st @ [m]
     \<and> trace (emitBranch config level parentMatrix len radius st)
       = trace st @ [EmitBranch level len radius m]"
  "draws (emitBranch config level parentMatrix len radius st) = draws st"
  by (simp_all add: emitBranch_def pushBranch_def Let_def)

lemma childArguments_state:
  "snd (childArguments rand config baseNextLength baseNextRadius childBaseMatrix angleStep i st)
     = st\<lparr>draws := draws st + 3\<rparr>"
  by (simp add: childArguments_def random_def Let_def)

lemma baseCase_cases:
  "baseCase rand config est level parentMatrix len radius st = st
   \<or> (isTerminal config level len radius \<and> 0 < level
      \<and> int (length (leafMatricesArray st)) < est - 1
      \<and> baseCase rand config est level parentMatrix len radius st
          = addLeaves rand config level parentMatrix len st)"
  by (simp add: baseCase_def)

section \<open>An invariant rule for the recursion\<close>

text \<open>
  A property of the state that every step of the recursion keeps (the base case, the push
  of a branch matrix in a call that is not a base case, the draws of one loop iteration,
  the recursive call from a level below \<^verbatim>\<open>maxDepth\<close>) is kept by the whole recursion. The
  proof follows the recursion of the two functions.
\<close>

lemma collect_invariant:
  fixes I :: "gen_state \<Rightarrow> bool"
  assumes base: "\<And>level parentMatrix len radius st.
      I st \<Longrightarrow> I (baseCase rand config est level parentMatrix len radius st)"
    and emit: "\<And>level parentMatrix len radius st.
      I st \<Longrightarrow> \<not> isTerminal config level len radius \<Longrightarrow> \<not> reachedLimit est st \<Longrightarrow>
      I (emitBranch config level parentMatrix len radius st)"
    and child: "\<And>baseNextLength baseNextRadius childBaseMatrix angleStep i st.
      I st \<Longrightarrow>
      I (snd (childArguments rand config baseNextLength baseNextRadius childBaseMatrix
                angleStep i st))"
    and call: "\<And>level st.
      I st \<Longrightarrow> level < nullish (maxDepth config) 5 \<Longrightarrow> I (noteCall level (level + 1) st)"
  shows "I st \<Longrightarrow>
         I (collectBranchDataRecursive rand config est level parentMatrix len radius st)"
    and "I st \<Longrightarrow> level < nullish (maxDepth config) 5 \<Longrightarrow> nextLevel = level + 1 \<Longrightarrow>
         I (childLoop rand config est level nextLevel baseNextLength baseNextRadius
              childBaseMatrix angleStep i st)"
  using base emit child call
proof (induction rand config est level parentMatrix len radius st
         and rand config est level nextLevel baseNextLength baseNextRadius childBaseMatrix
             angleStep i st
       rule: collectBranchDataRecursive_childLoop.induct)
  case (1 rand config est level parentMatrix len radius st)
  note inv = "1.prems"(1) and steps = "1.prems"(2-5)
  show ?case
  proof (cases "isTerminal config level len radius \<or> reachedLimit est st")
    case True
    then show ?thesis
      using inv steps(1) by (simp add: collectBranchDataRecursive.simps)
  next
    case False
    then have lvl: "level < nullish (maxDepth config) 5"
      by (simp add: isTerminal_def)
    have "I (emitBranch config level parentMatrix len radius st)"
      using False inv steps(2) by simp
    then show ?thesis
      using False lvl "1.IH" steps
      by (simp add: collectBranchDataRecursive.simps Let_def)
  qed
next
  case (2 rand config est level nextLevel baseNextLength baseNextRadius childBaseMatrix
          angleStep i st)
  note inv = "2.prems"(1) and lvl = "2.prems"(2,3) and steps = "2.prems"(4-7)
  show ?case
  proof (cases "i < nullish (numBranches config) 2 \<and> \<not> reachedLimit est st")
    case False
    then show ?thesis
      using inv by (auto simp add: childLoop.simps)
  next
    case True
    obtain nextParentMatrix nextLength nextRadius st1 where
      ca: "childArguments rand config baseNextLength baseNextRadius childBaseMatrix angleStep i st
             = ((nextParentMatrix, nextLength, nextRadius), st1)"
      by (metis prod_cases3 surj_pair)
    have "I st1"
      using steps(3)[OF inv, of baseNextLength baseNextRadius childBaseMatrix angleStep i] ca
      by simp
    then have "I (noteCall level nextLevel st1)"
      using steps(4) lvl by simp
    then have "I (collectBranchDataRecursive rand config est nextLevel nextParentMatrix
                 nextLength nextRadius (noteCall level nextLevel st1))"
      using "2.IH"(1) True ca steps by simp
    then show ?thesis
      using "2.IH"(2) True ca steps lvl by (simp add: childLoop.simps)
  qed
qed

section \<open>Evaluating a run\<close>

text \<open>The equations that unfold a run on a concrete configuration.\<close>

lemmas run_defs =
  generateTreeMatrices_def runGeneration_def estimateMaxInstances_def estimateLoop.simps
  falsy_or_def
  collectBranchDataRecursive.simps childLoop.simps isTerminal_def reachedLimit_def baseCase_def
  addLeaves_def emitBranch_def childArguments_def randomEuler_def random_def pushLeaf_def
  pushBranch_def noteCall_def nullish_def Let_def

lemma emittedBranches_append:
  "emittedBranches (xs @ ys) = emittedBranches xs @ emittedBranches ys"
  by (induction xs rule: emittedBranches.induct) simp_all

lemma emittedLeaves_append:
  "emittedLeaves (xs @ ys) = emittedLeaves xs @ emittedLeaves ys"
  by (induction xs rule: emittedLeaves.induct) simp_all

lemma emittedBranches_take:
  "length (emittedBranches (take n es)) \<le> length (emittedBranches es)"
proof -
  have "length (emittedBranches (take n es)) \<le> length (emittedBranches (take n es @ drop n es))"
    unfolding emittedBranches_append by simp
  then show ?thesis by simp
qed

lemma emittedLeaves_take:
  "length (emittedLeaves (take n es)) \<le> length (emittedLeaves es)"
proof -
  have "length (emittedLeaves (take n es)) \<le> length (emittedLeaves (take n es @ drop n es))"
    unfolding emittedLeaves_append by simp
  then show ?thesis by simp
qed

section \<open>The ghost trace agrees with the output arrays\<close>

lemma collect_traceAgrees:
  "traceAgrees st \<Longrightarrow>
   traceAgrees (collectBranchDataRecursive rand config est level parentMatrix len radius st)"
proof (rule collect_invariant(1)[where I = traceAgrees])
  fix level parentMatrix len radius st
  assume "traceAgrees st"
  then show "traceAgrees (baseCase rand config est level parentMatrix len radius st)"
    using baseCase_cases[of rand config est level parentMatrix len radius st]
      addLeaves_arrays[of rand config level parentMatrix len st]
    by (auto simp: traceAgrees_def emittedBranches_append emittedLeaves_append)
next
  fix level parentMatrix len radius st
  assume "traceAgrees st"
  then show "traceAgrees (emitBranch config level parentMatrix len radius st)"
    using emitBranch_arrays[of config level parentMatrix len radius st]
    by (auto simp: traceAgrees_def emittedBranches_append emittedLeaves_append)
qed (simp_all add: traceAgrees_def childArguments_state noteCall_def
       emittedBranches_append emittedLeaves_append)

lemma runGeneration_traceAgrees: "traceAgrees (runGeneration rand config)"
  unfolding runGeneration_def Let_def
  by (rule collect_traceAgrees) (simp add: traceAgrees_def)

section \<open>Cardinality bound\<close>

lemma collect_withinBudget:
  "withinBudget est st \<Longrightarrow>
   withinBudget est (collectBranchDataRecursive rand config est level parentMatrix len radius st)"
proof (rule collect_invariant(1)[where I = "withinBudget est"])
  fix level parentMatrix len radius st
  assume "withinBudget est st"
  then show "withinBudget est (baseCase rand config est level parentMatrix len radius st)"
    using baseCase_cases[of rand config est level parentMatrix len radius st]
      addLeaves_arrays[of rand config level parentMatrix len st]
    by (auto simp: withinBudget_def)
next
  fix level parentMatrix len radius st
  assume "withinBudget est st" "\<not> reachedLimit est st"
  then show "withinBudget est (emitBranch config level parentMatrix len radius st)"
    using emitBranch_arrays[of config level parentMatrix len radius st]
    by (auto simp: withinBudget_def reachedLimit_def)
qed (simp_all add: withinBudget_def childArguments_state noteCall_def)

lemma estimateMaxInstances_nonneg: "0 \<le> estimateMaxInstances config None"
  by (simp add: estimateMaxInstances_def Let_def nullish_def)

lemma runGeneration_withinBudget:
  "withinBudget (estimateMaxInstances config None) (runGeneration rand config)"
  unfolding runGeneration_def Let_def
  by (rule collect_withinBudget) (simp add: withinBudget_def estimateMaxInstances_nonneg)


text \<open>
  C1. For every configuration and every random source, the two arrays returned by
  \<^verbatim>\<open>generateTreeMatrices\<close> are no longer than the estimate of the configuration. The
  arrays only grow, and after every prefix of the run the number of matrices pushed so
  far is within the estimate as well: no push takes an array over the budget.
\<close>

theorem generateTreeMatrices_within_budget:
  "int (length (branchMatrices (fst (generateTreeMatrices rand (Some config)))))
     \<le> estimateMaxInstances config None
   \<and> int (length (leafMatrices (fst (generateTreeMatrices rand (Some config)))))
     \<le> estimateMaxInstances config None
   \<and> (\<forall>n. int (length (emittedBranches (take n (trace (runGeneration rand config)))))
            \<le> estimateMaxInstances config None
          \<and> int (length (emittedLeaves (take n (trace (runGeneration rand config)))))
            \<le> estimateMaxInstances config None)"
proof -
  let ?st = "runGeneration rand config"
  let ?est = "estimateMaxInstances config None"
  have b: "int (length (branchMatricesArray ?st)) \<le> ?est"
    and l: "int (length (leafMatricesArray ?st)) \<le> ?est"
    using runGeneration_withinBudget[of config rand] by (simp_all add: withinBudget_def)
  have tb: "emittedBranches (trace ?st) = branchMatricesArray ?st"
    and tl: "emittedLeaves (trace ?st) = leafMatricesArray ?st"
    using runGeneration_traceAgrees[of rand config] by (simp_all add: traceAgrees_def)
  have "int (length (emittedBranches (take n (trace ?st)))) \<le> ?est" for n
    using emittedBranches_take[of n "trace ?st"] b tb by simp
  moreover have "int (length (emittedLeaves (take n (trace ?st)))) \<le> ?est" for n
    using emittedLeaves_take[of n "trace ?st"] l tl by simp
  ultimately show ?thesis
    using b l by (simp add: generateTreeMatrices_def Let_def)
qed


section \<open>The depth-1 example\<close>

text \<open>
  C2, as stated, fails. The claim counts three branch transforms for the depth-1
  configuration: the root and its two children. With every draw pinned to \<open>0.5\<close> the
  generator returns a number of branch transforms that is not three.
\<close>

theorem depth1_three_branches_counterexample:
  "length (branchMatrices (fst (generateTreeMatrices pinnedRandom (Some depth1Config)))) \<noteq> 3"
  by (simp add: run_defs depth1Config_def)

text \<open>
  C2, amended. For the depth-1 configuration and every random source, the generator
  returns exactly one branch transform (the root, at level 0) and exactly four leaf
  transforms. The two children at level 1 are base cases: each pushes its two leaves and
  returns before the branch matrix is computed.
\<close>

theorem depth1_one_branch_four_leaves:
  "length (branchMatrices (fst (generateTreeMatrices rand (Some depth1Config)))) = 1
   \<and> length (leafMatrices (fst (generateTreeMatrices rand (Some depth1Config)))) = 4"
  by (simp add: run_defs depth1Config_def)

section \<open>The estimator\<close>

text \<open>The loop adds the powers \<open>branches ^ i\<close> for \<open>i\<close> up to \<open>depth\<close>.\<close>

lemma estimateLoop_sum:
  "estimateLoop depth branches i count = count + (\<Sum>k = i..depth. branches ^ k)"
proof (induction depth branches i count rule: estimateLoop.induct)
  case (1 depth branches i count)
  show ?case
  proof (cases "i \<le> depth")
    case True
    then have "(\<Sum>k = i..depth. branches ^ k) = branches ^ i + (\<Sum>k = Suc i..depth. branches ^ k)"
      by (simp add: sum.atLeast_Suc_atMost)
    moreover have "estimateLoop depth branches i count
        = estimateLoop depth branches (i + 1) (count + branches ^ i)"
      using True by (subst estimateLoop.simps) simp
    ultimately show ?thesis
      using "1.IH"[OF True] by simp
  next
    case False
    then show ?thesis by (subst estimateLoop.simps) simp
  qed
qed

lemma estimateMaxInstances_formula:
  assumes "maxDepth config = Some d" "0 < d" "numBranches config = Some b" "0 < b"
  shows "estimateMaxInstances config None = \<lceil>real (\<Sum>i = 0..d. b ^ i) * 1.5 * 1.5\<rceil>"
  using assms by (simp add: estimateMaxInstances_def falsy_or_def nullish_def estimateLoop_sum)

lemma estimateMaxInstances_mono:
  assumes "maxDepth c1 = Some d1" "maxDepth c2 = Some d2" "0 < d1" "d1 \<le> d2"
    and "numBranches c1 = numBranches c2"
  shows "estimateMaxInstances c1 None \<le> estimateMaxInstances c2 None"
proof -
  let ?b = "falsy_or (numBranches c2) 2"
  have "(\<Sum>k = 0..d1. ?b ^ k) \<le> (\<Sum>k = 0..d2. ?b ^ k)"
    using assms(4) by (intro sum_mono2) auto
  then have "real (\<Sum>k = 0..d1. ?b ^ k) \<le> real (\<Sum>k = 0..d2. ?b ^ k)"
    by (rule iffD2[OF of_nat_le_iff])
  then have "real (\<Sum>k = 0..d1. ?b ^ k) * 1.5 * 1.5 \<le> real (\<Sum>k = 0..d2. ?b ^ k) * 1.5 * 1.5"
    by (simp del: of_nat_sum of_nat_power)
  then have "\<lceil>real (\<Sum>k = 0..d1. ?b ^ k) * 1.5 * 1.5\<rceil> \<le> \<lceil>real (\<Sum>k = 0..d2. ?b ^ k) * 1.5 * 1.5\<rceil>"
    by (rule ceiling_mono)
  moreover have "estimateMaxInstances c1 None = \<lceil>real (\<Sum>k = 0..d1. ?b ^ k) * 1.5 * 1.5\<rceil>"
    using assms by (simp add: estimateMaxInstances_def falsy_or_def nullish_def estimateLoop_sum)
  moreover have "estimateMaxInstances c2 None = \<lceil>real (\<Sum>k = 0..d2. ?b ^ k) * 1.5 * 1.5\<rceil>"
    using assms by (simp add: estimateMaxInstances_def falsy_or_def nullish_def estimateLoop_sum)
  ultimately show ?thesis by simp
qed

text \<open>
  C3 at \<^verbatim>\<open>{maxDepth: 0, numBranches: 2}\<close>. The estimator reads \<^verbatim>\<open>maxDepth\<close> with \<^verbatim>\<open>||\<close>, so
  the value \<open>0\<close> is replaced by the default \<open>5\<close> and the estimate is \<open>142\<close>, where the
  geometric sum up to depth \<open>0\<close> times \<open>2.25\<close>, rounded up, is \<open>3\<close>.
\<close>

theorem estimateMaxInstances_zero_depth:
  "estimateMaxInstances zeroDepthConfig None = 142
   \<and> \<lceil>real (\<Sum>i = 0..0. (2::nat) ^ i) * 1.5 * 1.5\<rceil> = (3::int)"
  by (simp add: estimateMaxInstances_def estimateLoop.simps falsy_or_def nullish_def
      zeroDepthConfig_def)

text \<open>
  C4 at \<^verbatim>\<open>numBranches = 2\<close>, \<^verbatim>\<open>maxDepth\<close> \<open>0\<close> and \<open>1\<close>. For the same reason the estimate
  for depth \<open>0\<close> is \<open>142\<close> and the estimate for depth \<open>1\<close> is \<open>7\<close>: raising \<^verbatim>\<open>maxDepth\<close>
  from \<open>0\<close> to \<open>1\<close> lowers the estimate.
\<close>

theorem estimateMaxInstances_not_monotone_at_zero:
  "estimateMaxInstances zeroDepthConfig None = 142
   \<and> estimateMaxInstances (zeroDepthConfig\<lparr>maxDepth := Some 1\<rparr>) None = 7"
  by (simp add: estimateMaxInstances_def estimateLoop.simps falsy_or_def nullish_def
      zeroDepthConfig_def)

section \<open>Absent configuration and errors\<close>









section \<open>Leaves come in pairs\<close>

lemma collect_even_leaves:
  "even (length (leafMatricesArray st)) \<Longrightarrow>
   even (length (leafMatricesArray
     (collectBranchDataRecursive rand config est level parentMatrix len radius st)))"
proof (rule collect_invariant(1)[where I = "\<lambda>s. even (length (leafMatricesArray s))"])
  fix level parentMatrix len radius and st :: gen_state
  assume "even (length (leafMatricesArray st))"
  then show "even (length (leafMatricesArray
      (baseCase rand config est level parentMatrix len radius st)))"
    using baseCase_cases[of rand config est level parentMatrix len radius st]
      addLeaves_arrays[of rand config level parentMatrix len st]
    by auto
qed (simp_all add: emitBranch_arrays childArguments_state noteCall_def)

text \<open>
  C10. For every configuration (absent or not) and every random source, the array of
  leaf transforms returned by \<^verbatim>\<open>generateTreeMatrices\<close> has even length.
\<close>

theorem generateTreeMatrices_even_leaves:
  "even (length (leafMatrices (fst (generateTreeMatrices rand config))))"
proof (cases config)
  case None
  then show ?thesis by (simp add: generateTreeMatrices_def)
next
  case (Some c)
  have "even (length (leafMatricesArray (runGeneration rand c)))"
    unfolding runGeneration_def Let_def by (rule collect_even_leaves) simp
  then show ?thesis
    using Some by (simp add: generateTreeMatrices_def Let_def)
qed

section \<open>The root segment has no leaves\<close>

lemma collect_leavesAboveRoot:
  "leavesAboveRoot st \<Longrightarrow>
   leavesAboveRoot (collectBranchDataRecursive rand config est level parentMatrix len radius st)"
proof (rule collect_invariant(1)[where I = leavesAboveRoot])
  fix level parentMatrix len radius st
  assume "leavesAboveRoot st"
  then show "leavesAboveRoot (baseCase rand config est level parentMatrix len radius st)"
    using baseCase_cases[of rand config est level parentMatrix len radius st]
      addLeaves_arrays(2)[of rand config level parentMatrix len st]
    by (fastforce simp: leavesAboveRoot_def)
next
  fix level parentMatrix len radius st
  assume "leavesAboveRoot st"
  then show "leavesAboveRoot (emitBranch config level parentMatrix len radius st)"
    using emitBranch_arrays(2)[of config level parentMatrix len radius st]
    by (fastforce simp: leavesAboveRoot_def)
qed (simp_all add: leavesAboveRoot_def childArguments_state noteCall_def)

text \<open>
  C5. For every configuration and every random source, the leaf transforms returned by
  \<^verbatim>\<open>generateTreeMatrices\<close> are exactly those the trace records, and every one of them was
  pushed by a call at level 1 or above: the call at level 0, which is the initial call,
  pushes no leaf. This holds for every \<^verbatim>\<open>maxDepth\<close>, in particular for \<^verbatim>\<open>maxDepth\<close>
  at least 1.
\<close>

theorem root_emits_no_leaves:
  "leafMatrices (fst (generateTreeMatrices rand (Some config)))
     = emittedLeaves (trace (runGeneration rand config))
   \<and> (\<forall>l m. EmitLeaf l m \<in> set (trace (runGeneration rand config)) \<longrightarrow> 1 \<le> l)"
proof -
  have "leavesAboveRoot (runGeneration rand config)"
    unfolding runGeneration_def Let_def
    by (rule collect_leavesAboveRoot) (simp add: leavesAboveRoot_def)
  then show ?thesis
    using runGeneration_traceAgrees[of rand config]
    by (simp add: leavesAboveRoot_def traceAgrees_def generateTreeMatrices_def Let_def)
qed

text \<open>The depth-1 run pushes a leaf, and the level of the call that pushed it is at least 1.\<close>

theorem root_emits_no_leaves_witness:
  "\<exists>l m. EmitLeaf l m \<in> set (trace (runGeneration pinnedRandom depth1Config)) \<and> 1 \<le> l"
proof -
  have "\<exists>m. EmitLeaf 1 m \<in> set (trace (runGeneration pinnedRandom depth1Config))"
    by (simp add: run_defs depth1Config_def ex_disj_distrib)
  then obtain l m where
    mem: "EmitLeaf l m \<in> set (trace (runGeneration pinnedRandom depth1Config))"
    by blast
  then have "1 \<le> l"
    using root_emits_no_leaves[of pinnedRandom depth1Config] by blast
  with mem show ?thesis by blast
qed

section \<open>Branches come from calls that are not terminal\<close>




section \<open>Termination and recursion depth\<close>

lemma collect_callsDescend:
  "callsDescend config st \<Longrightarrow>
   callsDescend config
     (collectBranchDataRecursive rand config est level parentMatrix len radius st)"
proof (rule collect_invariant(1)[where I = "callsDescend config"])
  fix level parentMatrix len radius st
  assume "callsDescend config st"
  then show "callsDescend config (baseCase rand config est level parentMatrix len radius st)"
    using baseCase_cases[of rand config est level parentMatrix len radius st]
      addLeaves_arrays(2)[of rand config level parentMatrix len st]
    by (fastforce simp: callsDescend_def)
next
  fix level parentMatrix len radius st
  assume "callsDescend config st"
  then show "callsDescend config (emitBranch config level parentMatrix len radius st)"
    using emitBranch_arrays(2)[of config level parentMatrix len radius st]
    by (fastforce simp: callsDescend_def)
qed (auto simp add: callsDescend_def childArguments_state noteCall_def)

text \<open>
  C8. The recursion terminates on every argument: every call of
  \<^verbatim>\<open>collectBranchDataRecursive\<close> lies in the accessible part of the call relation. In a
  run of the generator every recursive call is made by a call at a level below
  \<^verbatim>\<open>maxDepth\<close> and goes to the next level, so no call is made from level \<^verbatim>\<open>maxDepth\<close> or
  above and the level of a call, which starts at 0, never exceeds \<^verbatim>\<open>maxDepth\<close>.
\<close>

theorem recursion_terminates_depth_bounded:
  "collectBranchDataRecursive_childLoop_dom
     (Inl (rand, config, est, level, parentMatrix, len, radius, st))
   \<and> (\<forall>a b. Call a b \<in> set (trace (runGeneration rand config)) \<longrightarrow>
         b = a + 1 \<and> a < nullish (maxDepth config) 5)"
proof -
  have "callsDescend config (runGeneration rand config)"
    unfolding runGeneration_def Let_def
    by (rule collect_callsDescend) (simp add: callsDescend_def)
  then show ?thesis
    using collectBranchDataRecursive_childLoop_total
    by (simp add: callsDescend_def)
qed

text \<open>The depth-1 run makes a recursive call from level 0 to level 1.\<close>

theorem recursion_terminates_depth_bounded_witness:
  "Call 0 1 \<in> set (trace (runGeneration pinnedRandom depth1Config))
   \<and> (1::nat) = 0 + 1 \<and> (0::nat) < nullish (maxDepth depth1Config) 5
   \<and> collectBranchDataRecursive_childLoop_dom
       (Inl (pinnedRandom, depth1Config, 7, 0, Identity, 10, 0.7,
             \<lparr>branchMatricesArray = [], leafMatricesArray = [], draws = 0, trace = []\<rparr>))"
proof -
  have mem: "Call 0 1 \<in> set (trace (runGeneration pinnedRandom depth1Config))"
    by (simp add: run_defs depth1Config_def)
  show ?thesis
    using mem recursion_terminates_depth_bounded[of pinnedRandom depth1Config 7 0 Identity 10 "0.7"
        "\<lparr>branchMatricesArray = [], leafMatricesArray = [], draws = 0, trace = []\<rparr>"]
    by blast
qed

section \<open>Determinism in the random source\<close>

text \<open>
  A run reads the random source only at the positions it draws. Two sources that agree
  on those positions give the same run.
\<close>

lemma agreeOn_sub:
  "agreeOn rand1 rand2 lo hi \<Longrightarrow> lo \<le> lo' \<Longrightarrow> hi' \<le> hi \<Longrightarrow> agreeOn rand1 rand2 lo' hi'"
  by (simp add: agreeOn_def)

lemma childArguments_agree:
  assumes "agreeOn rand1 rand2 (draws st) (draws st + 3)"
  shows "childArguments rand2 config baseNextLength baseNextRadius childBaseMatrix angleStep i st
       = childArguments rand1 config baseNextLength baseNextRadius childBaseMatrix angleStep i st"
proof -
  have "rand1 (draws st) = rand2 (draws st)" "rand1 (Suc (draws st)) = rand2 (Suc (draws st))"
    "rand1 (Suc (Suc (draws st))) = rand2 (Suc (Suc (draws st)))"
    using assms by (simp_all add: agreeOn_def)
  then show ?thesis
    by (simp add: childArguments_def random_def Let_def)
qed

lemma addLeaves_agree:
  assumes "agreeOn rand1 rand2 (draws st) (draws st + 6)"
  shows "addLeaves rand2 config level parentMatrix len st
       = addLeaves rand1 config level parentMatrix len st"
proof -
  have "rand1 (draws st + j) = rand2 (draws st + j)" if "j < 6" for j
    using assms that by (simp add: agreeOn_def)
  from this[of 0] this[of 1] this[of 2] this[of 3] this[of 4] this[of 5]
  show ?thesis
    by (simp add: addLeaves_def randomEuler_def random_def pushLeaf_def Let_def
        numeral_eq_Suc)
qed

lemma baseCase_agree:
  assumes "agreeOn rand1 rand2 (draws st)
             (draws (baseCase rand1 config est level parentMatrix len radius st))"
  shows "baseCase rand2 config est level parentMatrix len radius st
       = baseCase rand1 config est level parentMatrix len radius st"
proof (cases "isTerminal config level len radius \<and> 0 < level
               \<and> int (length (leafMatricesArray st)) < est - 1")
  case True
  then have "agreeOn rand1 rand2 (draws st) (draws st + 6)"
    using assms by (simp add: baseCase_def addLeaves_arrays(3))
  then show ?thesis
    using True by (simp add: baseCase_def addLeaves_agree)
next
  case False
  then show ?thesis by (auto simp add: baseCase_def)
qed

lemma draws_mono:
  "d \<le> draws st \<Longrightarrow>
   d \<le> draws (collectBranchDataRecursive rand config est level parentMatrix len radius st)"
  "d \<le> draws st \<Longrightarrow> level < nullish (maxDepth config) 5 \<Longrightarrow> nextLevel = level + 1 \<Longrightarrow>
   d \<le> draws (childLoop rand config est level nextLevel baseNextLength baseNextRadius
                 childBaseMatrix angleStep i st)"
proof -
  have base: "d \<le> draws (baseCase rand config est level parentMatrix len radius st)"
    if "d \<le> draws st" for level parentMatrix len radius and st :: gen_state
    using that baseCase_cases[of rand config est level parentMatrix len radius st]
      addLeaves_arrays(3)[of rand config level parentMatrix len st]
    by auto
  show "d \<le> draws st \<Longrightarrow>
   d \<le> draws (collectBranchDataRecursive rand config est level parentMatrix len radius st)"
    by (rule collect_invariant(1)[where I = "\<lambda>s. d \<le> draws s"])
       (simp_all add: base emitBranch_arrays childArguments_state noteCall_def)
  show "d \<le> draws st \<Longrightarrow> level < nullish (maxDepth config) 5 \<Longrightarrow> nextLevel = level + 1 \<Longrightarrow>
   d \<le> draws (childLoop rand config est level nextLevel baseNextLength baseNextRadius
                 childBaseMatrix angleStep i st)"
    by (rule collect_invariant(2)[where I = "\<lambda>s. d \<le> draws s"])
       (simp_all add: base emitBranch_arrays childArguments_state noteCall_def)
qed

lemma collect_agree:
  fixes rand2 :: "nat \<Rightarrow> real"
  shows "agreeOn rand1 rand2 (draws st)
       (draws (collectBranchDataRecursive rand1 config est level parentMatrix len radius st)) \<Longrightarrow>
     collectBranchDataRecursive rand2 config est level parentMatrix len radius st
       = collectBranchDataRecursive rand1 config est level parentMatrix len radius st"
    and "agreeOn rand1 rand2 (draws st)
       (draws (childLoop rand1 config est level nextLevel baseNextLength baseNextRadius
                 childBaseMatrix angleStep i st)) \<Longrightarrow>
     level < nullish (maxDepth config) 5 \<Longrightarrow> nextLevel = level + 1 \<Longrightarrow>
     childLoop rand2 config est level nextLevel baseNextLength baseNextRadius
         childBaseMatrix angleStep i st
       = childLoop rand1 config est level nextLevel baseNextLength baseNextRadius
           childBaseMatrix angleStep i st"
proof (induction rand1 config est level parentMatrix len radius st
         and rand1 config est level nextLevel baseNextLength baseNextRadius childBaseMatrix
             angleStep i st
       rule: collectBranchDataRecursive_childLoop.induct)
  case (1 rand1 config est level parentMatrix len radius st)
  show ?case
  proof (cases "isTerminal config level len radius \<or> reachedLimit est st")
    case True
    then show ?thesis
      using "1.prems" baseCase_agree[of rand1 rand2 st config est level parentMatrix len radius]
      by (simp add: collectBranchDataRecursive.simps)
  next
    case False
    then have lvl: "level < nullish (maxDepth config) 5"
      by (simp add: isTerminal_def)
    show ?thesis
      using False lvl "1.IH" "1.prems"
      by (simp add: collectBranchDataRecursive.simps[of _ config est level parentMatrix len radius st]
          Let_def emitBranch_arrays(3))
  qed
next
  case (2 rand1 config est level nextLevel baseNextLength baseNextRadius childBaseMatrix
          angleStep i st)
  note agree = "2.prems"(1) and lvl = "2.prems"(2,3)
  show ?case
  proof (cases "i < nullish (numBranches config) 2 \<and> \<not> reachedLimit est st")
    case False
    then show ?thesis
      by (auto simp add: childLoop.simps)
  next
    case True
    obtain nextParentMatrix nextLength nextRadius st1 where
      ca: "childArguments rand1 config baseNextLength baseNextRadius childBaseMatrix angleStep i st
             = ((nextParentMatrix, nextLength, nextRadius), st1)"
      by (metis prod_cases3 surj_pair)
    define st2 where "st2 = noteCall level nextLevel st1"
    define st3 where "st3 = collectBranchDataRecursive rand1 config est nextLevel
        nextParentMatrix nextLength nextRadius st2"
    define res where "res = childLoop rand1 config est level nextLevel baseNextLength
        baseNextRadius childBaseMatrix angleStep (i + 1) st3"
    have unfold1: "childLoop rand1 config est level nextLevel baseNextLength baseNextRadius
        childBaseMatrix angleStep i st = res"
      using True ca by (simp add: childLoop.simps[of _ _ _ _ _ _ _ _ _ i] st2_def st3_def res_def)
    have d1: "draws st1 = draws st + 3"
      using childArguments_state[of rand1 config baseNextLength baseNextRadius childBaseMatrix
          angleStep i st] ca by simp
    have d2: "draws st2 = draws st1"
      by (simp add: st2_def noteCall_def)
    have d3: "draws st2 \<le> draws st3"
      unfolding st3_def by (rule draws_mono(1)) simp
    have d4: "draws st3 \<le> draws res"
      unfolding res_def using lvl by (intro draws_mono(2)) simp_all
    have agree': "agreeOn rand1 rand2 (draws st) (draws res)"
      using agree unfold1 by simp
    have "agreeOn rand1 rand2 (draws st) (draws st + 3)"
      using agree' d1 d2 d3 d4 by (elim agreeOn_sub) simp_all
    then have ca2: "childArguments rand2 config baseNextLength baseNextRadius childBaseMatrix
        angleStep i st = ((nextParentMatrix, nextLength, nextRadius), st1)"
      using ca by (simp add: childArguments_agree)
    have "agreeOn rand1 rand2 (draws st2) (draws st3)"
      using agree' d1 d2 d3 d4 by (elim agreeOn_sub) simp_all
    then have c2: "collectBranchDataRecursive rand2 config est nextLevel nextParentMatrix
        nextLength nextRadius st2 = st3"
      using "2.IH"(1)[OF _ _ ca[symmetric] refl refl] True
      by (simp add: st2_def st3_def)
    have "agreeOn rand1 rand2 (draws st3) (draws res)"
      using agree' d1 d2 d3 d4 by (elim agreeOn_sub) simp_all
    then have l2: "childLoop rand2 config est level nextLevel baseNextLength baseNextRadius
        childBaseMatrix angleStep (i + 1) st3 = res"
      using "2.IH"(2)[OF _ _ ca[symmetric] refl refl] True lvl
      by (simp add: st2_def st3_def res_def)
    have "childLoop rand2 config est level nextLevel baseNextLength baseNextRadius
        childBaseMatrix angleStep i st = res"
      using True ca2 c2 l2 by (simp add: childLoop.simps[of _ _ _ _ _ _ _ _ _ i] st2_def)
    then show ?thesis
      using unfold1 by simp
  qed
qed

text \<open>
  C9. With the random source as an explicit input, \<^verbatim>\<open>generateTreeMatrices\<close> is
  deterministic: if a second source gives the same values as the first at every draw the
  first run makes, the second run returns the same result, branch transforms and leaf
  transforms alike. Two runs on the identical stream are the special case.
\<close>

theorem generateTreeMatrices_deterministic:
  "(\<forall>k. k < draws (runGeneration rand1 config) \<longrightarrow> rand1 k = rand2 k) \<Longrightarrow>
   generateTreeMatrices rand2 (Some config) = generateTreeMatrices rand1 (Some config)"
proof -
  assume same: "\<forall>k. k < draws (runGeneration rand1 config) \<longrightarrow> rand1 k = rand2 k"
  let ?st0 = "\<lparr>branchMatricesArray = [], leafMatricesArray = [], draws = 0, trace = []\<rparr>"
  let ?len = "nullish (initialLength config) 10"
  let ?run = "\<lambda>rand. collectBranchDataRecursive rand config (estimateMaxInstances config None) 0
      Identity ?len (nullish (initialRadius config) (?len / 15)) ?st0"
  have run: "runGeneration rand config = ?run rand" for rand
    by (simp add: runGeneration_def Let_def)
  have "agreeOn rand1 rand2 (draws ?st0) (draws (?run rand1))"
    using same by (simp add: agreeOn_def run)
  then have "?run rand2 = ?run rand1"
    by (rule collect_agree(1))
  then have "runGeneration rand2 config = runGeneration rand1 config"
    by (simp only: run)
  then show ?thesis
    by (simp add: generateTreeMatrices_def)
qed

text \<open>
  The depth-1 run makes eighteen draws. A source that is pinned to \<open>0.5\<close> and one that
  differs from it from the nineteenth draw on give the same result.
\<close>

theorem generateTreeMatrices_deterministic_witness:
  "draws (runGeneration pinnedRandom depth1Config) = 18
   \<and> pinnedThenZero 18 \<noteq> pinnedRandom 18
   \<and> generateTreeMatrices pinnedThenZero (Some depth1Config)
       = generateTreeMatrices pinnedRandom (Some depth1Config)"
proof -
  have d: "draws (runGeneration pinnedRandom depth1Config) = 18"
    by (simp add: run_defs depth1Config_def)
  have "\<forall>k. k < draws (runGeneration pinnedRandom depth1Config) \<longrightarrow>
          pinnedRandom k = pinnedThenZero k"
    by (simp add: d pinnedRandom_def pinnedThenZero_def)
  then show ?thesis
    using d generateTreeMatrices_deterministic[of pinnedRandom depth1Config pinnedThenZero]
    by (simp add: pinnedRandom_def pinnedThenZero_def)
qed

end
